theory Spec2Isabelle
  imports Complex_Main
begin

section \<open>Data model\<close>

text \<open>
  The editor's types, as \<^verbatim>\<open>App.tsx\<close>, \<^verbatim>\<open>ImageDisplay.tsx\<close> and
  \<^verbatim>\<open>serviceEnhance.ts\<close> use them. A JavaScript \<^verbatim>\<open>number\<close> that carries a
  coordinate or a dial is a \<^typ>\<open>real\<close>: the model is the exact arithmetic that the
  doubles of the source approximate, and a quotient is only read where its divisor is not
  zero. The history pointer is an \<^typ>\<open>int\<close> (it starts at \<open>-1\<close>).
\<close>

record Rect =
  rect_x :: real
  rect_y :: real
  rect_w :: real
  rect_h :: real

record ImageDescription =
  selectionDescription :: string
  prompt :: string

record HistoryStep =
  imageSrc :: string
  description :: "ImageDescription option"
  originalRect :: "Rect option"

text \<open>
  A rectangle as a computation of the source leaves it: with finite coordinates, or with
  a coordinate that is \<^verbatim>\<open>Infinity\<close> or \<^verbatim>\<open>NaN\<close> (a division by zero), which the
  reals do not have.
\<close>

datatype JsRect = FiniteRect Rect | NonFiniteRect

text \<open>The in-flight request of \<^verbatim>\<open>interface EnhancementJob\<close>.\<close>

record EnhancementJob =
  job_originalRect :: Rect
  job_canvasWithSelectionDataUrl :: string
  job_pixelatedSrc :: string
  job_screenRect :: Rect

text \<open>A decoded \<^verbatim>\<open>HTMLImageElement\<close>: its source and its natural dimensions.\<close>

record Image =
  img_src :: string
  naturalWidth :: nat
  naturalHeight :: nat

datatype AppState =
  IDLE | LOADING | LOADED | SELECTING | ANALYZING | ENHANCING | ENHANCED | CONVERTING

text \<open>
  A thrown or rejected value: an \<^verbatim>\<open>Error\<close> with its message, or the event that
  \<^verbatim>\<open>img.onerror = reject\<close> rejects with (it has no \<^verbatim>\<open>message\<close>).
\<close>

datatype error = Error string | ErrorEvent

text \<open>The \<^verbatim>\<open>useState\<close> cells of \<^verbatim>\<open>App\<close>.\<close>

record App =
  appState :: AppState
  image :: "Image option"
  pixelatedImageSrc :: "string option"
  enhancedImageSrc :: "string option"
  finalImageSrc :: "string option"
  history :: "HistoryStep list"
  historyIndex :: int
  newHistoryEntryData :: "(ImageDescription \<times> Rect) option"
  enhancementJob :: "EnhancementJob option"
  finalEnhancementRect :: "JsRect option"
  displaySelection :: "Rect option"
  isGeneratingGif :: bool
  showBananaBanner :: bool
  seekNanoBanana :: bool
  sharpness :: real
  denoise :: real
  imagination :: real
  isRegenPromptVisible :: bool
  regenPrompt :: string
  errorMessage :: "string option"

text \<open>The parts of a \<^verbatim>\<open>generateContent\<close> request and response that the code reads.\<close>

record GenRequest =
  req_model :: string
  req_mimeType :: string
  req_data :: string
  req_text :: string

record Part =
  part_text :: "string option"
  part_inlineData :: "(string \<times> string) option"

type_synonym Response = "Part list option option list option"

text \<open>
  The collaborators that are not part of the sources, as functions: the window size, the
  image utilities, the description service, the generative backend, image decoding
  (\<^verbatim>\<open>new Image()\<close> with \<^verbatim>\<open>onload\<close>/\<open>onerror\<close>) and \<^verbatim>\<open>JSON.parse\<close>
  restricted to the fields the code reads. A rejected promise is \<open>Inl\<close>.
\<close>

record Env =
  innerWidth :: real
  innerHeight :: real
  cropImage :: "Image \<Rightarrow> Rect \<Rightarrow> real \<Rightarrow> real \<Rightarrow> bool \<Rightarrow> error + string"
  imageToDataUrl :: "Image \<Rightarrow> error + string"
  serviceDescribeImage :: "string \<Rightarrow> ImageDescription list \<Rightarrow> bool \<Rightarrow> error + ImageDescription"
  generateContent :: "GenRequest \<Rightarrow> error + Response"
  loadImage :: "string \<Rightarrow> error + Image"
  parseFoundTheBanana :: "string \<Rightarrow> bool option"
  parseApiError :: "string \<Rightarrow> (string option \<times> string option) option"

section \<open>JavaScript primitives\<close>

text \<open>\<^verbatim>\<open>xs.slice(0, e)\<close>: a negative end counts from the end of the array.\<close>

definition slice0 :: "'a list \<Rightarrow> int \<Rightarrow> 'a list" where
  "slice0 xs e = (if e < 0 then take (nat (int (length xs) + e)) xs else take (nat e) xs)"

text \<open>\<^verbatim>\<open>xs[i]\<close>: \<^verbatim>\<open>undefined\<close> out of range.\<close>

definition at_index :: "'a list \<Rightarrow> int \<Rightarrow> 'a option" where
  "at_index xs i = (if 0 \<le> i \<and> i < int (length xs) then Some (xs ! nat i) else None)"

text \<open>\<^verbatim>\<open>Math.round\<close> rounds half up.\<close>

definition js_round :: "real \<Rightarrow> real" where
  "js_round v = of_int \<lfloor>v + 1 / 2\<rfloor>"

text \<open>\<^verbatim>\<open>s || d\<close> on a string: the empty string is falsy.\<close>

definition or_else :: "string \<Rightarrow> string \<Rightarrow> string" where
  "or_else s d = (if s = [] then d else s)"

text \<open>\<^verbatim>\<open>xs.join(sep)\<close>.\<close>

fun join :: "string \<Rightarrow> string list \<Rightarrow> string" where
  "join sep [] = []"
| "join sep [s] = s"
| "join sep (s # t # ts) = s @ sep @ join sep (t # ts)"

text \<open>\<^verbatim>\<open>s.split(',')\<close>: the pieces between commas (always at least one piece).\<close>

fun split_comma :: "string \<Rightarrow> string list" where
  "split_comma [] = [[]]"
| "split_comma (c # cs) =
     (if c = CHR '','' then [] # split_comma cs
      else (case split_comma cs of
              [] \<Rightarrow> [[c]]
            | p # ps \<Rightarrow> (c # p) # ps))"

section \<open>Viewport geometry (ImageDisplay.tsx)\<close>

record Transform =
  tr_x :: real
  tr_y :: real
  tr_scale :: real

definition clamp :: "real \<Rightarrow> real \<Rightarrow> real \<Rightarrow> real" where
  "clamp val mn mx = max mn (min val mx)"

text \<open>
  \<^verbatim>\<open>getTransformedMousePos\<close>: the point of the untransformed canvas under a canvas
  position (the inverse of the pan/zoom transform).
\<close>

definition getTransformedMousePos :: "Transform \<Rightarrow> real \<times> real \<Rightarrow> real \<times> real" where
  "getTransformedMousePos t c =
     ((fst c - tr_x t) / tr_scale t, (snd c - tr_y t) / tr_scale t)"

text \<open>
  Where \<^verbatim>\<open>draw\<close> puts a point: \<^verbatim>\<open>ctx.translate(transform.x, transform.y)\<close> followed by
  \<^verbatim>\<open>ctx.scale(transform.scale, transform.scale)\<close>.
\<close>

definition toScreen :: "Transform \<Rightarrow> real \<times> real \<Rightarrow> real \<times> real" where
  "toScreen t p = (fst p * tr_scale t + tr_x t, snd p * tr_scale t + tr_y t)"

definition zoomFactor :: real where
  "zoomFactor = 11 / 10"

text \<open>
  \<^verbatim>\<open>handleWheel\<close>, with the mouse position relative to the canvas and the wheel's
  \<^verbatim>\<open>deltaY\<close>. Nothing changes while \<^verbatim>\<open>isEnhancing\<close> or without a canvas.
\<close>

definition handleWheel :: "bool \<Rightarrow> bool \<Rightarrow> Transform \<Rightarrow> real \<times> real \<Rightarrow> real \<Rightarrow> Transform" where
  "handleWheel isEnhancing hasCanvas t mouse deltaY =
     (if isEnhancing then t
      else if \<not> hasCanvas then t
      else
        let mouseX = fst mouse;
            mouseY = snd mouse;
            newScale = (if deltaY < 0 then tr_scale t * zoomFactor else tr_scale t / zoomFactor);
            clampedScale = clamp newScale (1 / 4) 20;
            newX = mouseX - (mouseX - tr_x t) * (clampedScale / tr_scale t);
            newY = mouseY - (mouseY - tr_y t) * (clampedScale / tr_scale t)
        in \<lparr>tr_x = newX, tr_y = newY, tr_scale = clampedScale\<rparr>)"

section \<open>Region padding and inverse mapping (App.tsx, runEnhancementJob)\<close>

definition padding :: real where
  "padding = 1 / 2"

text \<open>
  Lines 298-313: the selection grown by \<open>p\<close> of its own size on every side and cut
  at the image's edges. The source's \<open>p\<close> is the constant \<^const>\<open>padding\<close>.
\<close>

definition padRect :: "real \<Rightarrow> Rect \<Rightarrow> real \<Rightarrow> real \<Rightarrow> Rect" where
  "padRect p r sourceImageWidth sourceImageHeight =
     (let paddedX = rect_x r - rect_w r * p;
          paddedY = rect_y r - rect_h r * p;
          paddedW = rect_w r * (1 + 2 * p);
          paddedH = rect_h r * (1 + 2 * p);
          finalPaddedX = max 0 paddedX;
          finalPaddedY = max 0 paddedY;
          finalPaddedX2 = min sourceImageWidth (paddedX + paddedW);
          finalPaddedY2 = min sourceImageHeight (paddedY + paddedH)
      in \<lparr>rect_x = finalPaddedX, rect_y = finalPaddedY,
          rect_w = finalPaddedX2 - finalPaddedX, rect_h = finalPaddedY2 - finalPaddedY\<rparr>)"

definition targetWidth :: real where
  "targetWidth = 1024"

text \<open>Lines 316-318: the height requested for the padded crop.\<close>

definition targetHeight :: "Rect \<Rightarrow> real" where
  "targetHeight paddedRect = js_round (targetWidth * (rect_h paddedRect / rect_w paddedRect))"

text \<open>
  Lines 337-342: \<^verbatim>\<open>finalCropRect\<close>, the part of the enhanced padded image that
  corresponds to the selection.
\<close>

definition finalCropRect :: "Rect \<Rightarrow> Rect \<Rightarrow> real \<Rightarrow> real \<Rightarrow> Rect" where
  "finalCropRect r paddedRect resultWidth resultHeight =
     \<lparr>rect_x = resultWidth * ((rect_x r - rect_x paddedRect) / rect_w paddedRect),
      rect_y = resultHeight * ((rect_y r - rect_y paddedRect) / rect_h paddedRect),
      rect_w = resultWidth * (rect_w r / rect_w paddedRect),
      rect_h = resultHeight * (rect_h r / rect_h paddedRect)\<rparr>"

definition finalImageWidth :: real where
  "finalImageWidth = 1024"

definition finalImageHeight :: "Rect \<Rightarrow> real" where
  "finalImageHeight r = js_round (finalImageWidth * (rect_h r / rect_w r))"

text \<open>
  Modelled from the spec: \<^verbatim>\<open>cropImage\<close> of \<^verbatim>\<open>utils/imageUtils\<close> is not among the
  sources. The spec has it read the pixels of a region into a buffer of the target size,
  a uniform resize without letterboxing: the region \<open>src\<close> is stretched onto
  \<open>[0, w] \<times> [0, h]\<close>. \<open>resizeRect\<close> is where that sends a rectangle of the source
  image, \<open>unresizeRect\<close> is the way back from the resized image.
\<close>

definition resizeRect :: "Rect \<Rightarrow> real \<Rightarrow> real \<Rightarrow> Rect \<Rightarrow> Rect" where
  "resizeRect src w h r =
     \<lparr>rect_x = (rect_x r - rect_x src) * (w / rect_w src),
      rect_y = (rect_y r - rect_y src) * (h / rect_h src),
      rect_w = rect_w r * (w / rect_w src),
      rect_h = rect_h r * (h / rect_h src)\<rparr>"

definition unresizeRect :: "Rect \<Rightarrow> real \<Rightarrow> real \<Rightarrow> Rect \<Rightarrow> Rect" where
  "unresizeRect src w h c =
     \<lparr>rect_x = rect_x src + rect_x c * (rect_w src / w),
      rect_y = rect_y src + rect_y c * (rect_h src / h),
      rect_w = rect_w c * (rect_w src / w),
      rect_h = rect_h c * (rect_h src / h)\<rparr>"

text \<open>One rectangle lies within another.\<close>

definition rect_within :: "Rect \<Rightarrow> Rect \<Rightarrow> bool" where
  "rect_within r outer \<longleftrightarrow>
     rect_x outer \<le> rect_x r \<and> rect_y outer \<le> rect_y r \<and>
     rect_x r + rect_w r \<le> rect_x outer + rect_w outer \<and>
     rect_y r + rect_h r \<le> rect_y outer + rect_h outer"

definition imageBounds :: "real \<Rightarrow> real \<Rightarrow> Rect" where
  "imageBounds W H = \<lparr>rect_x = 0, rect_y = 0, rect_w = W, rect_h = H\<rparr>"

definition rect_area :: "Rect \<Rightarrow> real" where
  "rect_area r = rect_w r * rect_h r"

section \<open>The enhancement service (serviceEnhance.ts)\<close>

definition dataUrlToBase64 :: "string \<Rightarrow> string" where
  "dataUrlToBase64 dataUrl =
     (let parts = split_comma dataUrl in if length parts > 1 then parts ! 1 else [])"

definition getQualityModifiers :: "real \<Rightarrow> real \<Rightarrow> string list" where
  \<open>getQualityModifiers sharpnessDial denoiseDial =
     (if sharpnessDial \<le> 20 then [''have a soft focus, maintaining the original level of detail'']
      else if 61 \<le> sharpnessDial \<and> sharpnessDial \<le> 80 then
        [''have a sharp, crisp finish, adding subtle, plausible details where the image is slightly blurry'']
      else if 81 \<le> sharpnessDial then
        [''be extremely sharp, with highly defined details. Where the image is blurry, you must invent and add intricate, photorealistic details that are consistent with the surrounding context'']
      else [])
     @
     (if denoiseDial \<le> 20 then [''preserve the original film grain and texture'']
      else if 61 \<le> denoiseDial \<and> denoiseDial \<le> 80 then
        [''apply significant noise reduction for a clean look'']
      else if 81 \<le> denoiseDial then
        [''be almost completely free of noise and grain, resulting in a very smooth image'']
      else [])\<close>

definition getImaginationInstructions :: "real \<Rightarrow> string" where
  \<open>getImaginationInstructions imaginationDial =
     (if imaginationDial \<le> 20 then
        ''The final image should be a direct, high-resolution upscale of the input. Stick as closely as possible to the original image's shapes, colors, and content. Do not add or remove any elements.''
      else if imaginationDial \<le> 40 then
        ''Subtly enhance the details. You can introduce small, plausible textures and details that are hinted at in the original, but do not add new objects or significantly alter the composition.''
      else if imaginationDial \<le> 60 then
        ''Be moderately creative. You can reinterpret blurry or ambiguous areas into more defined objects and textures that fit the context. The overall theme and composition should remain consistent with the original.''
      else if imaginationDial \<le> 80 then
        ''Use your imagination. You can add new elements and transform parts of the scene, as long as it's clearly inspired by the original image's colors and shapes. The result can be a creative interpretation.''
      else
        ''Transform the image into something fantastical and surreal. The original image is merely a starting point for a highly imaginative and artistic creation. Feel free to completely reimagine the scene.'')\<close>

text \<open>The banana emoji of the easter-egg text, as its UTF-8 bytes.\<close>

definition bananaEmoji :: string where
  "bananaEmoji = [CHR 0xF0, CHR 0x9F, CHR 0x8D, CHR 0x8C]"

text \<open>Lines 61-79: the text part of the request, from the last prompt of the history.\<close>

definition generationPrompt :: "string \<Rightarrow> bool \<Rightarrow> real \<Rightarrow> real \<Rightarrow> real \<Rightarrow> string" where
  \<open>generationPrompt context seek sharpnessDial denoiseDial imaginationDial =
     (let qualityModifiers = getQualityModifiers sharpnessDial denoiseDial;
          qualityInstructions =
            (if length qualityModifiers > 0
             then ''The final image should '' @ join '' and '' qualityModifiers @ ''.''
             else []);
          imaginationInstructions = getImaginationInstructions imaginationDial
      in ''The provided image is a low-resolution crop, described as: "''
         @ or_else context ''an unknown scene''
         @ ''". Your task is to upscale it into a high-resolution, detailed image.\<newline>\<newline>**Creative Guidance:** ''
         @ imaginationInstructions
         @ ''\<newline>\<newline>**Quality Instructions:** ''
         @ or_else qualityInstructions ''Use default quality settings.''
         @ ''\<newline>\<newline>**Boundary Rules:** The resulting image must be a plausible, higher-resolution version of the input, interpreted through the creative guidance above. It should build upon the shapes and colors present in the reference image.\<newline>''
         @ (if seek then
              ''\<newline>**Easter Egg:** There's a small chance you can hide a "nano banana" ''
              @ bananaEmoji
              @ '' in the image. Be subtle. If you add a banana, respond with the text part as a JSON object: `{"foundTheBanana": true}`. Otherwise, do not include a text part or set it to `{"foundTheBanana": false}`.''
            else []))\<close>

text \<open>
  Lines 98-116: the loop over the response's parts. A part with a non-empty text is
  parsed for the flag (a failed parse is ignored); otherwise a part with inline data
  sets the image.
\<close>

fun scanParts :: "Env \<Rightarrow> Part list \<Rightarrow> bool \<times> string option \<Rightarrow> bool \<times> string option" where
  "scanParts env [] acc = acc"
| "scanParts env (p # ps) (foundTheBanana, src) =
     (case part_text p of
        Some (c # cs) \<Rightarrow>
          scanParts env ps
            (case parseFoundTheBanana env (c # cs) of
               Some True \<Rightarrow> True
             | _ \<Rightarrow> foundTheBanana, src)
      | _ \<Rightarrow>
          (case part_inlineData p of
             Some (mimeType, imageData) \<Rightarrow>
               scanParts env ps
                 (foundTheBanana, Some (''data:'' @ mimeType @ '';base64,'' @ imageData))
           | None \<Rightarrow> scanParts env ps (foundTheBanana, src)))"

text \<open>Lines 89-122: what is read from the response.\<close>

definition readResponse :: "Env \<Rightarrow> Response \<Rightarrow> error + string \<times> bool" where
  "readResponse env response =
     (case response of
        None \<Rightarrow> Inl (Error ''No candidates returned from the API.'')
      | Some [] \<Rightarrow> Inl (Error ''No candidates returned from the API.'')
      | Some (candidate # _) \<Rightarrow>
          (case candidate of
             None \<Rightarrow> Inl (Error ''No contents returned from the API.'')
           | Some None \<Rightarrow> Inl (Error ''No parts returned from the API.'')
           | Some (Some parts) \<Rightarrow>
               (case scanParts env parts (False, None) of
                  (foundTheBanana, None) \<Rightarrow> Inl (Error ''API response did not include an image.'')
                | (foundTheBanana, Some src) \<Rightarrow> Inr (src, foundTheBanana))))"

text \<open>
  \<^verbatim>\<open>serviceEnhance\<close>. The first component is the list of requests sent to the backend
  during the call, the second is what the promise settles with.
\<close>

definition serviceEnhance ::
  "Env \<Rightarrow> string \<Rightarrow> string list \<Rightarrow> bool \<Rightarrow> real \<Rightarrow> real \<Rightarrow> real
     \<Rightarrow> GenRequest list \<times> (error + string \<times> bool)" where
  "serviceEnhance env croppedImageDataUrl promptHistory seek sharpnessDial denoiseDial imaginationDial =
     (let base64Data = dataUrlToBase64 croppedImageDataUrl in
      if promptHistory = [] then ([], Inl (Error ''Enhancement history is empty.''))
      else
        let context = last promptHistory;
            request = \<lparr>req_model = ''gemini-2.5-flash-image'', req_mimeType = ''image/png'',
                       req_data = base64Data,
                       req_text = generationPrompt context seek sharpnessDial denoiseDial imaginationDial\<rparr>
        in ([request],
            (case generateContent env request of
               Inl e \<Rightarrow> Inl e
             | Inr response \<Rightarrow> readResponse env response)))"

section \<open>The editor (App.tsx)\<close>

definition getApiErrorMessage :: "Env \<Rightarrow> error \<Rightarrow> string" where
  "getApiErrorMessage env err =
     (case err of
        ErrorEvent \<Rightarrow> ''An unexpected error occurred. Please try again.''
      | Error m \<Rightarrow>
          if m = [] then ''An unexpected error occurred. Please try again.''
          else
            (case parseApiError env m of
               Some (Some (c # cs), status) \<Rightarrow>
                 if status = Some ''RESOURCE_EXHAUSTED''
                 then ''API quota exceeded. Please check your plan and billing details.''
                 else ''API Error: '' @ (c # cs)
             | _ \<Rightarrow> m))"

text \<open>The prompts and descriptions of the steps up to an index (lines 288, 465, 562).\<close>

definition descriptionsUpTo :: "HistoryStep list \<Rightarrow> int \<Rightarrow> ImageDescription list" where
  "descriptionsUpTo hist e = List.map_filter description (slice0 hist e)"

text \<open>\<^verbatim>\<open>img.onload\<close> of \<^verbatim>\<open>loadInitialImage\<close> and of \<^verbatim>\<open>handleFileDrop\<close>.\<close>

definition initialImageLoaded :: "App \<Rightarrow> string \<Rightarrow> Image \<Rightarrow> App" where
  "initialImageLoaded s objectURL img =
     s\<lparr>history := [\<lparr>imageSrc = objectURL, description = None, originalRect = None\<rparr>],
       historyIndex := 0, image := Some img, finalImageSrc := Some objectURL,
       displaySelection := None, appState := LOADED\<rparr>"

definition fileImageLoaded :: "App \<Rightarrow> string \<Rightarrow> Image \<Rightarrow> App" where
  "fileImageLoaded s objectURL img =
     s\<lparr>history := [\<lparr>imageSrc = objectURL, description = None, originalRect = None\<rparr>],
       historyIndex := 0, image := Some img, finalImageSrc := Some objectURL,
       enhancementJob := None, finalEnhancementRect := None, displaySelection := None,
       showBananaBanner := False, seekNanoBanana := False, appState := LOADED\<rparr>"

text \<open>\<^verbatim>\<open>resetState\<close>, up to the point where \<^verbatim>\<open>loadInitialImage\<close> starts to fetch.\<close>

definition resetState :: "App \<Rightarrow> App" where
  "resetState s =
     s\<lparr>enhancementJob := None, finalEnhancementRect := None, history := [],
       historyIndex := - 1, newHistoryEntryData := None, displaySelection := None,
       showBananaBanner := False, seekNanoBanana := False, imagination := 0,
       appState := LOADING\<rparr>"

text \<open>
  Lines 251-269 of \<^verbatim>\<open>handleSelection\<close>: the on-screen box of the result, as large as
  the window less 5% allows at the selection's aspect ratio, centred. For a selection of
  width or height 0 the source divides by zero; the cases follow its arithmetic (a zero
  of the selection is \<open>+0\<close>, as \<^verbatim>\<open>Math.abs\<close> and the products of the source give it):
  \<^item> width 0: the aspect ratio is a zero with the sign of the height, the first target
    height \<open>maxWidth / 0\<close> is \<open>+Infinity\<close> exactly when \<open>maxWidth\<close> and the height have
    the same sign, and is then replaced by \<open>maxHeight\<close> with target width \<open>0\<close>;
    otherwise it is \<open>-Infinity\<close> or \<open>NaN\<close> and stays;
  \<^item> height 0, width not 0: the aspect ratio is infinite and the first target height is
    a zero, kept unless \<open>0 > maxHeight\<close>, where the target width becomes infinite;
  \<^item> both 0: the aspect ratio is \<open>NaN\<close>.
\<close>

definition enhancementLayout :: "Env \<Rightarrow> Rect \<Rightarrow> JsRect" where
  "enhancementLayout env selRect =
     (let edgePadding = 5 / 100;
          maxWidth = innerWidth env * (1 - edgePadding);
          maxHeight = innerHeight env * (1 - edgePadding)
      in if rect_w selRect \<noteq> 0 \<and> rect_h selRect \<noteq> 0 then
           let aspectRatio = rect_w selRect / rect_h selRect;
               fitsHeight = \<not> (maxWidth / aspectRatio > maxHeight);
               boxHeight = (if fitsHeight then maxWidth / aspectRatio else maxHeight);
               boxWidth = (if fitsHeight then maxWidth else maxHeight * aspectRatio)
           in FiniteRect \<lparr>rect_x = (innerWidth env - boxWidth) / 2,
                            rect_y = (innerHeight env - boxHeight) / 2,
                            rect_w = boxWidth, rect_h = boxHeight\<rparr>
         else if rect_h selRect \<noteq> 0 then
           if (0 < maxWidth \<and> 0 < rect_h selRect) \<or> (maxWidth < 0 \<and> rect_h selRect < 0)
           then FiniteRect \<lparr>rect_x = innerWidth env / 2,
                             rect_y = (innerHeight env - maxHeight) / 2,
                             rect_w = 0, rect_h = maxHeight\<rparr>
           else NonFiniteRect
         else if rect_w selRect \<noteq> 0 then
           if 0 > maxHeight then NonFiniteRect
           else FiniteRect \<lparr>rect_x = (innerWidth env - maxWidth) / 2,
                             rect_y = innerHeight env / 2,
                             rect_w = maxWidth, rect_h = 0\<rparr>
         else NonFiniteRect)"

text \<open>
  \<^verbatim>\<open>handleSelection\<close> (lines 238-280). A selection made behind the head of the
  history first cuts the redo steps off. When the awaited \<^verbatim>\<open>cropImage\<close> rejects, no
  job is stored.
\<close>

definition handleSelection :: "Env \<Rightarrow> App \<Rightarrow> Rect \<Rightarrow> Rect \<Rightarrow> string \<Rightarrow> App" where
  "handleSelection env s selRect screenRect canvasWithSelectionDataUrl =
     (case image s of
        None \<Rightarrow> s
      | Some img \<Rightarrow>
          let s1 = (if historyIndex s < int (length (history s)) - 1
                    then s\<lparr>history := slice0 (history s) (historyIndex s + 1)\<rparr>
                    else s);
              s2 = s1\<lparr>appState := ENHANCING\<rparr>;
              s3 = s2\<lparr>finalEnhancementRect := Some (enhancementLayout env selRect)\<rparr>
          in (case cropImage env img selRect (rect_w selRect) (rect_h selRect) True of
                Inl e \<Rightarrow> s3
              | Inr pixelatedSrc \<Rightarrow>
                  s3\<lparr>enhancementJob :=
                       Some \<lparr>job_originalRect = selRect,
                             job_canvasWithSelectionDataUrl = canvasWithSelectionDataUrl,
                             job_pixelatedSrc = pixelatedSrc,
                             job_screenRect = screenRect\<rparr>\<rparr>))"

text \<open>
  The \<^verbatim>\<open>try\<close> block of \<^verbatim>\<open>runEnhancementJob\<close> (lines 287-352): \<open>Inr\<close> is the state
  when the block completes, \<open>Inl\<close> the thrown value with the state reached by then.
\<close>

definition runEnhancementJob_try :: "Env \<Rightarrow> App \<Rightarrow> EnhancementJob \<Rightarrow> Image \<Rightarrow> error \<times> App + App" where
  "runEnhancementJob_try env s job img =
     (let selRect = job_originalRect job;
          descriptionHistory = descriptionsUpTo (history s) (historyIndex s + 1)
      in case serviceDescribeImage env (job_canvasWithSelectionDataUrl job) descriptionHistory False of
           Inl e \<Rightarrow> Inl (e, s)
         | Inr desc \<Rightarrow>
             let s1 = s\<lparr>newHistoryEntryData := Some (desc, selRect)\<rparr>;
                 paddedRect = padRect padding selRect (real (naturalWidth img)) (real (naturalHeight img))
             in case cropImage env img paddedRect targetWidth (targetHeight paddedRect) False of
                  Inl e \<Rightarrow> Inl (e, s1)
                | Inr croppedForEnhancement \<Rightarrow>
                    (case snd (serviceEnhance env croppedForEnhancement
                                 (map prompt descriptionHistory @ [prompt desc])
                                 (seekNanoBanana s) (sharpness s) (denoise s) (imagination s)) of
                       Inl e \<Rightarrow> Inl (e, s1)
                     | Inr (enhancedPaddedSrc, foundTheBanana) \<Rightarrow>
                         let s2 = (if foundTheBanana then s1\<lparr>showBananaBanner := True\<rparr> else s1)
                         in case loadImage env enhancedPaddedSrc of
                              Inl e \<Rightarrow> Inl (e, s2)
                            | Inr enhancedPaddedImage \<Rightarrow>
                                (case cropImage env enhancedPaddedImage
                                        (finalCropRect selRect paddedRect
                                           (real (naturalWidth enhancedPaddedImage))
                                           (real (naturalHeight enhancedPaddedImage)))
                                        finalImageWidth (finalImageHeight selRect) False of
                                   Inl e \<Rightarrow> Inl (e, s2)
                                 | Inr enhancedSrc \<Rightarrow>
                                     Inr (s2\<lparr>pixelatedImageSrc := Some (job_pixelatedSrc job),
                                             enhancedImageSrc := Some enhancedSrc,
                                             appState := ENHANCED\<rparr>))))"

text \<open>
  \<^verbatim>\<open>runEnhancementJob\<close>: the guard, the \<^verbatim>\<open>try\<close> block, the \<^verbatim>\<open>catch\<close> (lines 354-357)
  and the \<^verbatim>\<open>finally\<close> (line 359).
\<close>

definition runEnhancementJob :: "Env \<Rightarrow> App \<Rightarrow> App" where
  "runEnhancementJob env s =
     (case enhancementJob s of
        None \<Rightarrow> s
      | Some job \<Rightarrow>
          (case image s of
             None \<Rightarrow> s
           | Some img \<Rightarrow>
               let settled =
                     (case runEnhancementJob_try env s job img of
                        Inl (e, s1) \<Rightarrow>
                          s1\<lparr>errorMessage := Some (getApiErrorMessage env e), appState := LOADED,
                             finalEnhancementRect := None\<rparr>
                      | Inr s3 \<Rightarrow> s3)
               in settled\<lparr>enhancementJob := None\<rparr>))"

text \<open>
  \<^verbatim>\<open>handleEnhancementComplete\<close> (lines 363-388). An empty string is falsy, so it does
  not pass the guard. The \<^verbatim>\<open>onload\<close> part runs when the new image decodes.
\<close>

definition handleEnhancementComplete :: "Env \<Rightarrow> App \<Rightarrow> App" where
  "handleEnhancementComplete env s =
     (case enhancedImageSrc s of
        None \<Rightarrow> s
      | Some [] \<Rightarrow> s
      | Some (c # cs) \<Rightarrow>
          (case newHistoryEntryData s of
             None \<Rightarrow> s
           | Some (desc, selRect) \<Rightarrow>
               let newStep = \<lparr>imageSrc = c # cs, description = Some desc, originalRect = Some selRect\<rparr>;
                   newHistory = slice0 (history s) (historyIndex s + 1);
                   s1 = s\<lparr>history := newHistory @ [newStep], historyIndex := int (length newHistory)\<rparr>
               in (case loadImage env (c # cs) of
                     Inl e \<Rightarrow> s1
                   | Inr newImage \<Rightarrow>
                       s1\<lparr>image := Some newImage, finalImageSrc := Some (c # cs),
                          enhancedImageSrc := None, finalEnhancementRect := None,
                          newHistoryEntryData := None, displaySelection := None,
                          appState := LOADED\<rparr>)))"

text \<open>
  What \<^verbatim>\<open>handleUndo\<close> and \<^verbatim>\<open>handleRedo\<close> do once past their guard, at the new index:
  the pointer and the displayed selection are set, then \<^verbatim>\<open>history[newIndex].imageSrc\<close>
  is read (a \<^verbatim>\<open>TypeError\<close> out of range, after the two setters) and shown when it
  decodes.
\<close>

definition showStep :: "Env \<Rightarrow> App \<Rightarrow> int \<Rightarrow> App" where
  "showStep env s newIndex =
     (let s1 = s\<lparr>historyIndex := newIndex\<rparr>;
          s2 = s1\<lparr>displaySelection :=
                    (case at_index (history s) (newIndex + 1) of
                       None \<Rightarrow> None
                     | Some nextStep \<Rightarrow> originalRect nextStep)\<rparr>
      in case at_index (history s) newIndex of
           None \<Rightarrow> s2
         | Some step \<Rightarrow>
             (case loadImage env (imageSrc step) of
                Inl e \<Rightarrow> s2
              | Inr img \<Rightarrow> s2\<lparr>image := Some img, finalImageSrc := Some (imageSrc step)\<rparr>))"

text \<open>\<^verbatim>\<open>handleUndo\<close> (lines 404-419) and \<^verbatim>\<open>handleRedo\<close> (lines 421-436).\<close>

definition handleUndo :: "Env \<Rightarrow> App \<Rightarrow> App" where
  "handleUndo env s =
     (if historyIndex s \<le> 0 \<or> appState s = ENHANCING \<or> isGeneratingGif s then s
      else showStep env s (historyIndex s - 1))"

definition handleRedo :: "Env \<Rightarrow> App \<Rightarrow> App" where
  "handleRedo env s =
     (if historyIndex s \<ge> int (length (history s)) - 1 \<or> appState s = ENHANCING \<or> isGeneratingGif s
      then s
      else showStep env s (historyIndex s + 1))"

text \<open>
  The undo and redo buttons (lines 752, 814-830): the panel that holds them is rendered
  only in the \<^const>\<open>LOADED\<close> state with a non-empty history, and each button has its
  own \<^verbatim>\<open>disabled\<close> condition. A click reaches the handler only through an enabled
  button.
\<close>

definition controlsRendered :: "App \<Rightarrow> bool" where
  "controlsRendered s \<longleftrightarrow> appState s = LOADED \<and> length (history s) \<ge> 1"

definition undoDisabled :: "App \<Rightarrow> bool" where
  "undoDisabled s \<longleftrightarrow> historyIndex s \<le> 0 \<or> isGeneratingGif s"

definition redoDisabled :: "App \<Rightarrow> bool" where
  "redoDisabled s \<longleftrightarrow> historyIndex s \<ge> int (length (history s)) - 1 \<or> isGeneratingGif s"

definition clickUndo :: "Env \<Rightarrow> App \<Rightarrow> App" where
  "clickUndo env s = (if controlsRendered s \<and> \<not> undoDisabled s then handleUndo env s else s)"

definition clickRedo :: "Env \<Rightarrow> App \<Rightarrow> App" where
  "clickRedo env s = (if controlsRendered s \<and> \<not> redoDisabled s then handleRedo env s else s)"

text \<open>
  The \<^verbatim>\<open>try\<close> block inside \<^verbatim>\<open>sourceImage.onload\<close> of \<^verbatim>\<open>handleRegenWithPrompt\<close>
  (lines 464-540), for the step being regenerated, its rectangle and the decoded image
  of the step before it. The history is rebuilt at line 530.
\<close>

definition handleRegenWithPrompt_try ::
  "Env \<Rightarrow> App \<Rightarrow> HistoryStep \<Rightarrow> Rect \<Rightarrow> Image \<Rightarrow> error \<times> App + App" where
  "handleRegenWithPrompt_try env s currentStep selRect sourceImage =
     (let descriptionHistory = descriptionsUpTo (history s) (historyIndex s);
          desc = \<lparr>selectionDescription =
                    (case description currentStep of
                       None \<Rightarrow> ''User-provided prompt for regeneration.''
                     | Some d \<Rightarrow>
                         or_else (selectionDescription d) ''User-provided prompt for regeneration.''),
                  prompt = regenPrompt s\<rparr>;
          paddedRect = padRect padding selRect
                         (real (naturalWidth sourceImage)) (real (naturalHeight sourceImage))
      in case cropImage env sourceImage paddedRect targetWidth (targetHeight paddedRect) False of
           Inl e \<Rightarrow> Inl (e, s)
         | Inr croppedForEnhancement \<Rightarrow>
             (case snd (serviceEnhance env croppedForEnhancement
                          (map (\<lambda>d. or_else (prompt d) []) descriptionHistory
                             @ [or_else (prompt desc) []])
                          (seekNanoBanana s) (sharpness s) (denoise s) (imagination s)) of
                Inl e \<Rightarrow> Inl (e, s)
              | Inr (enhancedPaddedSrc, foundTheBanana) \<Rightarrow>
                  let s1 = (if foundTheBanana then s\<lparr>showBananaBanner := True\<rparr> else s)
                  in case loadImage env enhancedPaddedSrc of
                       Inl e \<Rightarrow> Inl (e, s1)
                     | Inr enhancedPaddedImage \<Rightarrow>
                         (case cropImage env enhancedPaddedImage
                                 (finalCropRect selRect paddedRect
                                    (real (naturalWidth enhancedPaddedImage))
                                    (real (naturalHeight enhancedPaddedImage)))
                                 finalImageWidth (finalImageHeight selRect) False of
                            Inl e \<Rightarrow> Inl (e, s1)
                          | Inr enhancedSrc \<Rightarrow>
                              let newStep = \<lparr>imageSrc = enhancedSrc, description = Some desc,
                                             originalRect = Some selRect\<rparr>;
                                  newHistory = slice0 (history s) (historyIndex s) @ [newStep];
                                  s2 = s1\<lparr>history := newHistory, displaySelection := None\<rparr>
                              in (case loadImage env enhancedSrc of
                                    Inl e \<Rightarrow> Inr s2
                                  | Inr newImage \<Rightarrow>
                                      Inr (s2\<lparr>image := Some newImage,
                                              finalImageSrc := Some enhancedSrc,
                                              appState := LOADED\<rparr>)))))"

text \<open>
  \<^verbatim>\<open>handleRegenWithPrompt\<close> (lines 446-548). Reading \<^verbatim>\<open>currentStep.originalRect\<close> of a
  missing step throws after the first two setters; a source image that does not decode
  never calls \<^verbatim>\<open>onload\<close>.
\<close>

definition handleRegenWithPrompt :: "Env \<Rightarrow> App \<Rightarrow> App" where
  "handleRegenWithPrompt env s =
     (if historyIndex s \<le> 0 \<or> appState s = ENHANCING \<or> isGeneratingGif s then s
      else
        let s0 = s\<lparr>isRegenPromptVisible := False, appState := ENHANCING\<rparr>
        in case at_index (history s) (historyIndex s) of
             None \<Rightarrow> s0
           | Some currentStep \<Rightarrow>
               (case originalRect currentStep of
                  None \<Rightarrow> s0\<lparr>appState := LOADED\<rparr>
                | Some selRect \<Rightarrow>
                    (case at_index (history s) (historyIndex s - 1) of
                       None \<Rightarrow> s0
                     | Some previousStep \<Rightarrow>
                         (case loadImage env (imageSrc previousStep) of
                            Inl e \<Rightarrow> s0
                          | Inr sourceImage \<Rightarrow>
                              (case handleRegenWithPrompt_try env s0 currentStep selRect sourceImage of
                                 Inl (e, s1) \<Rightarrow>
                                   s1\<lparr>errorMessage := Some (getApiErrorMessage env e),
                                      appState := LOADED\<rparr>
                               | Inr s2 \<Rightarrow> s2)))))"

text \<open>The \<^verbatim>\<open>try\<close> block of \<^verbatim>\<open>runFullImageEnhancement\<close> (lines 558-588).\<close>

definition runFullImageEnhancement_try ::
  "Env \<Rightarrow> App \<Rightarrow> Image \<Rightarrow> real \<Rightarrow> real \<Rightarrow> real \<Rightarrow> error \<times> App + App" where
  "runFullImageEnhancement_try env s img newSharpness newDenoise newImagination =
     (case imageToDataUrl env img of
        Inl e \<Rightarrow> Inl (e, s)
      | Inr fullImageDataUrl \<Rightarrow>
          let selRect = \<lparr>rect_x = 0, rect_y = 0, rect_w = real (naturalWidth img),
                         rect_h = real (naturalHeight img)\<rparr>;
              descriptionHistory = descriptionsUpTo (history s) (historyIndex s + 1)
          in case serviceDescribeImage env fullImageDataUrl descriptionHistory True of
               Inl e \<Rightarrow> Inl (e, s)
             | Inr desc \<Rightarrow>
                 (case snd (serviceEnhance env fullImageDataUrl
                              (map prompt descriptionHistory @ [prompt desc])
                              (seekNanoBanana s) newSharpness newDenoise newImagination) of
                    Inl e \<Rightarrow> Inl (e, s)
                  | Inr (enhancedSrc, foundTheBanana) \<Rightarrow>
                      let s1 = (if foundTheBanana then s\<lparr>showBananaBanner := True\<rparr> else s);
                          newStep = \<lparr>imageSrc = enhancedSrc, description = Some desc,
                                     originalRect = Some selRect\<rparr>;
                          newHistory = slice0 (history s) (historyIndex s + 1) @ [newStep];
                          s2 = s1\<lparr>history := newHistory, historyIndex := int (length newHistory)\<rparr>
                      in (case loadImage env enhancedSrc of
                            Inl e \<Rightarrow> Inr s2
                          | Inr newImage \<Rightarrow>
                              Inr (s2\<lparr>image := Some newImage, finalImageSrc := Some enhancedSrc,
                                      displaySelection := None, appState := LOADED\<rparr>))))"

text \<open>\<^verbatim>\<open>runFullImageEnhancement\<close> (lines 550-594).\<close>

definition runFullImageEnhancement :: "Env \<Rightarrow> App \<Rightarrow> real \<Rightarrow> real \<Rightarrow> real \<Rightarrow> App" where
  "runFullImageEnhancement env s newSharpness newDenoise newImagination =
     (case image s of
        None \<Rightarrow> s\<lparr>appState := LOADED\<rparr>
      | Some img \<Rightarrow>
          (case runFullImageEnhancement_try env (s\<lparr>appState := ENHANCING\<rparr>) img
                  newSharpness newDenoise newImagination of
             Inl (e, s1) \<Rightarrow>
               s1\<lparr>errorMessage := Some (getApiErrorMessage env e), appState := LOADED\<rparr>
           | Inr s2 \<Rightarrow> s2))"

section \<open>The history invariant\<close>

text \<open>
  The pointer is \<open>-1\<close> on the empty history and a valid index otherwise.
\<close>

definition history_inv :: "App \<Rightarrow> bool" where
  "history_inv s \<longleftrightarrow>
     (if history s = [] then historyIndex s = - 1
      else 0 \<le> historyIndex s \<and> historyIndex s < int (length (history s)))"

section \<open>Example sessions\<close>

text \<open>
  Concrete collaborators and editor states on which the theorems below are exercised.
  With \<open>okEnv\<close> every collaborator succeeds (the backend returns one image part and
  images decode at 1024 by 1024); with \<open>failEnv\<close> the backend call is rejected.
\<close>

definition okEnv :: Env where
  "okEnv =
     \<lparr>innerWidth = 1000, innerHeight = 800,
      cropImage = (\<lambda>img r w h pixelated. Inr ''data:image/png;base64,CROP''),
      imageToDataUrl = (\<lambda>img. Inr ''data:image/png;base64,FULL''),
      serviceDescribeImage =
        (\<lambda>url hist isFullImage. Inr \<lparr>selectionDescription = ''a lamp'', prompt = ''a brass lamp''\<rparr>),
      generateContent =
        (\<lambda>req. Inr (Some [Some (Some [\<lparr>part_text = None,
                                          part_inlineData = Some (''image/png'', ''ENH'')\<rparr>])])),
      loadImage = (\<lambda>src. Inr \<lparr>img_src = src, naturalWidth = 1024, naturalHeight = 1024\<rparr>),
      parseFoundTheBanana = (\<lambda>t. None),
      parseApiError = (\<lambda>m. None)\<rparr>"

definition failEnv :: Env where
  "failEnv = okEnv\<lparr>generateContent := (\<lambda>req. Inl (Error ''backend unavailable''))\<rparr>"

definition rootStep :: HistoryStep where
  "rootStep = \<lparr>imageSrc = ''blob:root'', description = None, originalRect = None\<rparr>"

definition stepA :: HistoryStep where
  "stepA = \<lparr>imageSrc = ''data:image/png;base64,A'',
            description = Some \<lparr>selectionDescription = ''a window'', prompt = ''a bay window''\<rparr>,
            originalRect = Some \<lparr>rect_x = 10, rect_y = 10, rect_w = 100, rect_h = 100\<rparr>\<rparr>"

definition stepB :: HistoryStep where
  "stepB = \<lparr>imageSrc = ''data:image/png;base64,B'',
            description = Some \<lparr>selectionDescription = ''a latch'', prompt = ''a brass latch''\<rparr>,
            originalRect = Some \<lparr>rect_x = 200, rect_y = 300, rect_w = 400, rect_h = 200\<rparr>\<rparr>"

definition session :: "HistoryStep list \<Rightarrow> int \<Rightarrow> AppState \<Rightarrow> App" where
  "session hist idx st =
     \<lparr>appState = st,
      image = Some \<lparr>img_src = ''blob:current'', naturalWidth = 500, naturalHeight = 500\<rparr>,
      pixelatedImageSrc = None, enhancedImageSrc = None, finalImageSrc = Some ''blob:current'',
      history = hist, historyIndex = idx, newHistoryEntryData = None, enhancementJob = None,
      finalEnhancementRect = None, displaySelection = None, isGeneratingGif = False,
      showBananaBanner = False, seekNanoBanana = False, sharpness = 50, denoise = 50,
      imagination = 0, isRegenPromptVisible = True, regenPrompt = ''a stained-glass window'',
      errorMessage = None\<rparr>"

section \<open>Evaluation lemmas\<close>

lemma slice0_take: "0 \<le> e \<Longrightarrow> slice0 xs e = take (nat e) xs"
  by (simp add: slice0_def)

lemma okEnv_fields:
  "cropImage okEnv img r w h pixelated = Inr ''data:image/png;base64,CROP''"
  "imageToDataUrl okEnv img = Inr ''data:image/png;base64,FULL''"
  "serviceDescribeImage okEnv url hist isFullImage
     = Inr \<lparr>selectionDescription = ''a lamp'', prompt = ''a brass lamp''\<rparr>"
  "loadImage okEnv src = Inr \<lparr>img_src = src, naturalWidth = 1024, naturalHeight = 1024\<rparr>"
  "innerWidth okEnv = 1000" "innerHeight okEnv = 800"
  by (simp_all add: okEnv_def)

lemma okEnv_serviceEnhance:
  "hs \<noteq> [] \<Longrightarrow> snd (serviceEnhance okEnv u hs k a b c) = Inr (''data:image/png;base64,ENH'', False)"
  by (simp add: serviceEnhance_def okEnv_def readResponse_def Let_def)

lemma failEnv_fields:
  "cropImage failEnv img r w h pixelated = Inr ''data:image/png;base64,CROP''"
  "imageToDataUrl failEnv img = Inr ''data:image/png;base64,FULL''"
  "serviceDescribeImage failEnv url hist isFullImage
     = Inr \<lparr>selectionDescription = ''a lamp'', prompt = ''a brass lamp''\<rparr>"
  "loadImage failEnv src = Inr \<lparr>img_src = src, naturalWidth = 1024, naturalHeight = 1024\<rparr>"
  by (simp_all add: failEnv_def okEnv_def)

lemma failEnv_serviceEnhance:
  "hs \<noteq> [] \<Longrightarrow> snd (serviceEnhance failEnv u hs k a b c) = Inl (Error ''backend unavailable'')"
  by (simp add: serviceEnhance_def failEnv_def okEnv_def Let_def)

lemma failEnv_message:
  "getApiErrorMessage failEnv (Error ''backend unavailable'') = ''backend unavailable''"
  by (simp add: getApiErrorMessage_def failEnv_def okEnv_def)

lemma session_fields:
  "history (session hist idx st) = hist" "historyIndex (session hist idx st) = idx"
  "image (session hist idx st) \<noteq> None" "enhancementJob (session hist idx st) = None"
  by (simp_all add: session_def)

text \<open>
  A selection of width 0 in a 1000 by 800 window: the box has width 0 and the full
  permitted height, as the source computes it.
\<close>

lemma enhancementLayout_zero_width:
  "enhancementLayout okEnv \<lparr>rect_x = 0, rect_y = 0, rect_w = 0, rect_h = 50\<rparr>
     = FiniteRect \<lparr>rect_x = 500, rect_y = 20, rect_w = 0, rect_h = 760\<rparr>"
  by (simp add: enhancementLayout_def okEnv_fields Let_def)

text \<open>What the \<^verbatim>\<open>try\<close> block of \<^const>\<open>runEnhancementJob\<close> leaves untouched.\<close>

lemma try_Inl:
  "runEnhancementJob_try env s job img = Inl (e, s1) \<Longrightarrow>
   history s1 = history s \<and> historyIndex s1 = historyIndex s \<and> image s1 = image s
   \<and> finalImageSrc s1 = finalImageSrc s \<and> enhancedImageSrc s1 = enhancedImageSrc s
   \<and> enhancementJob s1 = enhancementJob s"
  by (auto simp add: runEnhancementJob_try_def Let_def split: sum.splits prod.splits if_splits)

lemma try_Inr:
  "runEnhancementJob_try env s job img = Inr s3 \<Longrightarrow>
   history s3 = history s \<and> historyIndex s3 = historyIndex s \<and> appState s3 = ENHANCED"
  by (auto simp add: runEnhancementJob_try_def Let_def split: sum.splits prod.splits if_splits)

lemma try_Inr_entry:
  "runEnhancementJob_try env s job img = Inr s3 \<Longrightarrow>
   (\<exists>desc. newHistoryEntryData s3 = Some (desc, job_originalRect job))
   \<and> (\<exists>src. enhancedImageSrc s3 = Some src)"
  by (auto simp add: runEnhancementJob_try_def Let_def split: sum.splits prod.splits if_splits)

section \<open>History: committing a new step\<close>

lemma history_handleSelection:
  "image s \<noteq> None \<Longrightarrow> - 1 \<le> historyIndex s \<Longrightarrow>
   history (handleSelection env s r sr u) = take (nat (historyIndex s + 1)) (history s)"
  by (auto simp add: handleSelection_def Let_def slice0_take split: option.splits sum.splits)

lemma historyIndex_handleSelection:
  "historyIndex (handleSelection env s r sr u) = historyIndex s"
  by (simp add: handleSelection_def Let_def split: option.splits sum.splits)

lemma handleSelection_job:
  "enhancementJob (handleSelection env s r sr u) = Some job \<Longrightarrow> enhancementJob s = None \<Longrightarrow>
   job_originalRect job = r"
  by (auto simp add: handleSelection_def Let_def split: option.splits sum.splits if_splits)

text \<open>
  The commit of \<^const>\<open>handleEnhancementComplete\<close>, for every position of the pointer:
  the steps up to the pointer are kept, the new step is appended and the pointer is the
  new tail.
\<close>

lemma handleEnhancementComplete_commit:
  assumes "enhancedImageSrc s = Some src" and "src \<noteq> []"
      and "newHistoryEntryData s = Some (desc, selRect)"
      and "- 1 \<le> historyIndex s"
  shows "history (handleEnhancementComplete env s)
           = take (nat (historyIndex s + 1)) (history s)
             @ [\<lparr>imageSrc = src, description = Some desc, originalRect = Some selRect\<rparr>]
       \<and> historyIndex (handleEnhancementComplete env s)
           = int (length (history (handleEnhancementComplete env s))) - 1"
proof -
  obtain c cs where src: "src = c # cs"
    using assms(2) by (cases src) auto
  have e: "0 \<le> historyIndex s + 1" using assms(4) by simp
  have hist: "history (handleEnhancementComplete env s)
           = take (nat (historyIndex s + 1)) (history s)
             @ [\<lparr>imageSrc = src, description = Some desc, originalRect = Some selRect\<rparr>]"
    using assms(1,3) src e
    by (simp add: handleEnhancementComplete_def Let_def slice0_take split: sum.splits)
  have idx: "historyIndex (handleEnhancementComplete env s)
           = int (length (take (nat (historyIndex s + 1)) (history s)))"
    using assms(1,3) src e
    by (simp add: handleEnhancementComplete_def Let_def slice0_take split: sum.splits)
  from hist idx show ?thesis by simp
qed

lemma runEnhancementJob_ENHANCED:
  assumes "appState (runEnhancementJob env s) = ENHANCED" and "appState s \<noteq> ENHANCED"
  shows "\<exists>job desc. enhancementJob s = Some job
       \<and> newHistoryEntryData (runEnhancementJob env s) = Some (desc, job_originalRect job)
       \<and> history (runEnhancementJob env s) = history s
       \<and> historyIndex (runEnhancementJob env s) = historyIndex s"
proof (cases "enhancementJob s")
  case None
  then show ?thesis using assms by (simp add: runEnhancementJob_def)
next
  case job: (Some job)
  show ?thesis
  proof (cases "image s")
    case None
    then show ?thesis using assms job by (simp add: runEnhancementJob_def)
  next
    case (Some img)
    show ?thesis
    proof (cases "runEnhancementJob_try env s job img")
      case (Inl p)
      obtain e s1 where p: "p = (e, s1)" by (cases p)
      from Inl p assms job Some show ?thesis
        by (simp add: runEnhancementJob_def Let_def)
    next
      case (Inr s3)
      from try_Inr [OF Inr] try_Inr_entry [OF Inr] Inr job Some show ?thesis
        by (auto simp add: runEnhancementJob_def Let_def)
    qed
  qed
qed

text \<open>
  The whole selection flow from an idle state with the pointer anywhere in the history:
  selection, a job that ends in the \<^const>\<open>ENHANCED\<close> state, commit. The steps after
  the pointer are discarded, the new step is appended, the pointer is the new tail and
  the length is the old pointer plus 2.
\<close>

lemma selection_flow_commits_new:
  assumes "image s0 \<noteq> None" and "- 1 \<le> historyIndex s0"
      and "historyIndex s0 < int (length (history s0))"
      and "enhancementJob s0 = None"
      and "appState (runEnhancementJob env (handleSelection env s0 r sr u)) = ENHANCED"
      and "enhancedImageSrc (runEnhancementJob env (handleSelection env s0 r sr u)) = Some src"
      and "src \<noteq> []"
  shows "\<exists>desc.
           history (handleEnhancementComplete env (runEnhancementJob env (handleSelection env s0 r sr u)))
             = take (nat (historyIndex s0 + 1)) (history s0)
               @ [\<lparr>imageSrc = src, description = Some desc, originalRect = Some r\<rparr>]
         \<and> historyIndex (handleEnhancementComplete env (runEnhancementJob env (handleSelection env s0 r sr u)))
             = int (length (history (handleEnhancementComplete env
                                       (runEnhancementJob env (handleSelection env s0 r sr u))))) - 1
         \<and> int (length (history (handleEnhancementComplete env
                                    (runEnhancementJob env (handleSelection env s0 r sr u)))))
             = historyIndex s0 + 2"
proof -
  let ?s1 = "handleSelection env s0 r sr u"
  let ?s2 = "runEnhancementJob env ?s1"
  have st: "appState ?s1 \<noteq> ENHANCED"
    using assms(1) by (auto simp add: handleSelection_def Let_def split: option.splits sum.splits)
  from runEnhancementJob_ENHANCED [OF assms(5) st]
  obtain job desc where job: "enhancementJob ?s1 = Some job"
    and entry: "newHistoryEntryData ?s2 = Some (desc, job_originalRect job)"
    and h: "history ?s2 = history ?s1" and i: "historyIndex ?s2 = historyIndex ?s1"
    by blast
  have r: "job_originalRect job = r"
    using handleSelection_job [OF job assms(4)] .
  have h1: "history ?s1 = take (nat (historyIndex s0 + 1)) (history s0)"
    using assms(1,2) by (rule history_handleSelection)
  have i1: "historyIndex ?s1 = historyIndex s0"
    by (rule historyIndex_handleSelection)
  have idx: "- 1 \<le> historyIndex ?s2" using i i1 assms(2) by simp
  from handleEnhancementComplete_commit [OF assms(6) assms(7) entry idx, of env]
  have c: "history (handleEnhancementComplete env ?s2)
           = take (nat (historyIndex ?s2 + 1)) (history ?s2)
             @ [\<lparr>imageSrc = src, description = Some desc, originalRect = Some (job_originalRect job)\<rparr>]"
    and p: "historyIndex (handleEnhancementComplete env ?s2)
           = int (length (history (handleEnhancementComplete env ?s2))) - 1"
    by simp_all
  have tk: "take (nat (historyIndex ?s2 + 1)) (history ?s2) = take (nat (historyIndex s0 + 1)) (history s0)"
    using h h1 i i1 by simp
  have len: "int (length (take (nat (historyIndex s0 + 1)) (history s0))) = historyIndex s0 + 1"
    using assms(2,3) by simp
  from c p tk len r show ?thesis by auto
qed

text \<open>Two steps undone on \<open>[root, A, B]\<close>, then a selection is enhanced and committed.\<close>

lemma selection_flow_example:
  "history (handleEnhancementComplete okEnv (runEnhancementJob okEnv
      (handleSelection okEnv (session [rootStep, stepA, stepB] 0 LOADED)
         \<lparr>rect_x = 10, rect_y = 10, rect_w = 100, rect_h = 100\<rparr>
         \<lparr>rect_x = 30, rect_y = 40, rect_w = 200, rect_h = 200\<rparr>
         ''data:image/png;base64,CANVAS'')))
     = [rootStep,
        \<lparr>imageSrc = ''data:image/png;base64,CROP'',
         description = Some \<lparr>selectionDescription = ''a lamp'', prompt = ''a brass lamp''\<rparr>,
         originalRect = Some \<lparr>rect_x = 10, rect_y = 10, rect_w = 100, rect_h = 100\<rparr>\<rparr>]
   \<and> historyIndex (handleEnhancementComplete okEnv (runEnhancementJob okEnv
      (handleSelection okEnv (session [rootStep, stepA, stepB] 0 LOADED)
         \<lparr>rect_x = 10, rect_y = 10, rect_w = 100, rect_h = 100\<rparr>
         \<lparr>rect_x = 30, rect_y = 40, rect_w = 200, rect_h = 200\<rparr>
         ''data:image/png;base64,CANVAS''))) = 1"
  by (simp add: session_def handleSelection_def runEnhancementJob_def runEnhancementJob_try_def
        handleEnhancementComplete_def descriptionsUpTo_def List.map_filter_simps
        rootStep_def stepA_def stepB_def okEnv_fields okEnv_serviceEnhance Let_def slice0_def)

text \<open>
  C5. Committing a new step from a state with \<open>currentIndex < length - 1\<close> is to
  discard the steps after the pointer, append the new step, leave the pointer on the
  new tail and have \<open>currentIndex_before + 2\<close> steps. The selection flow does so (the
  lemmas above). The commit of a full-image enhancement does not: on \<open>[root, A, B]\<close>
  with the pointer at 0 it leaves \<open>[root, new]\<close>, two steps as it should, but the
  pointer at 2, past the new tail at 1 (line 579 stores the length after the append).
\<close>

theorem fullImage_commit_pointer_past_tail:
  "historyIndex (session [rootStep, stepA, stepB] 0 LOADED)
     < int (length (history (session [rootStep, stepA, stepB] 0 LOADED))) - 1
   \<and> history (runFullImageEnhancement okEnv (session [rootStep, stepA, stepB] 0 LOADED) 50 50 0)
       = [rootStep,
          \<lparr>imageSrc = ''data:image/png;base64,ENH'',
           description = Some \<lparr>selectionDescription = ''a lamp'', prompt = ''a brass lamp''\<rparr>,
           originalRect = Some \<lparr>rect_x = 0, rect_y = 0, rect_w = 500, rect_h = 500\<rparr>\<rparr>]
   \<and> historyIndex (runFullImageEnhancement okEnv (session [rootStep, stepA, stepB] 0 LOADED) 50 50 0) = 2
   \<and> historyIndex (runFullImageEnhancement okEnv (session [rootStep, stepA, stepB] 0 LOADED) 50 50 0)
       \<noteq> int (length (history (runFullImageEnhancement okEnv
                                   (session [rootStep, stepA, stepB] 0 LOADED) 50 50 0))) - 1"
  by (simp add: session_def runFullImageEnhancement_def runFullImageEnhancement_try_def
        rootStep_def stepA_def stepB_def okEnv_fields okEnv_serviceEnhance Let_def slice0_def)

section \<open>History: regenerating the current step\<close>

lemma regen_try_Inl:
  "handleRegenWithPrompt_try env s cur selRect src = Inl (e, s1) \<Longrightarrow>
   history s1 = history s \<and> historyIndex s1 = historyIndex s"
  by (auto simp add: handleRegenWithPrompt_try_def Let_def split: sum.splits prod.splits if_splits)

lemma regen_try_Inr:
  "handleRegenWithPrompt_try env s cur selRect src = Inr s2 \<Longrightarrow>
   historyIndex s2 = historyIndex s \<and>
   (\<exists>newStep. history s2 = slice0 (history s) (historyIndex s) @ [newStep]
      \<and> originalRect newStep = Some selRect
      \<and> map_option prompt (description newStep) = Some (regenPrompt s))"
  by (auto simp add: handleRegenWithPrompt_try_def Let_def split: sum.splits prod.splits if_splits)




section \<open>History: the pointer invariant\<close>

lemma history_inv_loaded:
  "history_inv (initialImageLoaded s url img)" "history_inv (fileImageLoaded s url img)"
  "history_inv (resetState s)"
  by (simp_all add: history_inv_def initialImageLoaded_def fileImageLoaded_def resetState_def)

lemma history_inv_handleSelection:
  "history_inv s \<Longrightarrow> history_inv (handleSelection env s r sr u)"
  by (auto simp add: history_inv_def handleSelection_def Let_def slice0_def
      split: option.splits sum.splits if_splits)

lemma history_inv_runEnhancementJob:
  "history_inv s \<Longrightarrow> history_inv (runEnhancementJob env s)"
proof (cases "enhancementJob s")
  case None
  then show "history_inv s \<Longrightarrow> ?thesis" by (simp add: runEnhancementJob_def)
next
  case job: (Some job)
  show "history_inv s \<Longrightarrow> ?thesis"
  proof (cases "image s")
    case None
    then show "history_inv s \<Longrightarrow> ?thesis" using job by (simp add: runEnhancementJob_def)
  next
    case (Some img)
    assume inv: "history_inv s"
    show ?thesis
    proof (cases "runEnhancementJob_try env s job img")
      case (Inl p)
      obtain e s1 where p: "p = (e, s1)" by (cases p)
      from try_Inl [of env s job img e s1] Inl p inv show ?thesis
        using job Some by (simp add: runEnhancementJob_def Let_def history_inv_def)
    next
      case (Inr s3)
      from try_Inr [OF Inr] Inr inv show ?thesis
        using job Some by (simp add: runEnhancementJob_def Let_def history_inv_def)
    qed
  qed
qed

lemma history_inv_handleEnhancementComplete:
  "history_inv s \<Longrightarrow> history_inv (handleEnhancementComplete env s)"
  by (auto simp add: history_inv_def handleEnhancementComplete_def Let_def slice0_def
      split: option.splits sum.splits list.splits if_splits)

lemma history_inv_undo_redo:
  "history_inv s \<Longrightarrow> history_inv (handleUndo env s)"
  "history_inv s \<Longrightarrow> history_inv (handleRedo env s)"
  by (auto simp add: history_inv_def handleUndo_def handleRedo_def showStep_def Let_def
      split: option.splits sum.splits if_splits)

lemma history_inv_handleRegenWithPrompt:
  assumes "history_inv s"
  shows "history_inv (handleRegenWithPrompt env s)"
proof (cases "historyIndex s \<le> 0")
  case True
  then show ?thesis using assms by (simp add: handleRegenWithPrompt_def)
next
  case False
  with assms have i: "0 < historyIndex s" "historyIndex s < int (length (history s))"
    by (auto simp add: history_inv_def split: if_splits)
  show ?thesis
  proof (cases "appState s = ENHANCING \<or> isGeneratingGif s")
    case True
    then show ?thesis using assms by (auto simp add: handleRegenWithPrompt_def)
  next
    case guard: False
    have cur: "at_index (history s) (historyIndex s) = Some (history s ! nat (historyIndex s))"
      using i by (simp add: at_index_def)
    let ?s0 = "s\<lparr>isRegenPromptVisible := False, appState := ENHANCING\<rparr>"
    have s0: "history_inv ?s0" "history_inv (?s0\<lparr>appState := LOADED\<rparr>)"
      using assms by (simp_all add: history_inv_def)
    show ?thesis
    proof (cases "originalRect (history s ! nat (historyIndex s))")
      case None
      then show ?thesis using i guard cur s0
        by (simp add: handleRegenWithPrompt_def Let_def)
    next
      case (Some selRect)
      show ?thesis
      proof (cases "at_index (history s) (historyIndex s - 1)")
        case None
        then show ?thesis using i guard cur Some s0
          by (simp add: handleRegenWithPrompt_def Let_def)
      next
        case prev: (Some previousStep)
        show ?thesis
        proof (cases "loadImage env (imageSrc previousStep)")
          case (Inl e)
          then show ?thesis using i guard cur Some prev s0
            by (simp add: handleRegenWithPrompt_def Let_def)
        next
          case (Inr sourceImage)
          show ?thesis
          proof (cases "handleRegenWithPrompt_try env ?s0 (history s ! nat (historyIndex s))
                          selRect sourceImage")
            case (Inl p)
            obtain e s1 where p: "p = (e, s1)" by (cases p)
            from regen_try_Inl [of env ?s0 _ selRect sourceImage e s1] Inl p
            have "history s1 = history s" "historyIndex s1 = historyIndex s" by simp_all
            moreover have "handleRegenWithPrompt env s
                = s1\<lparr>errorMessage := Some (getApiErrorMessage env e), appState := LOADED\<rparr>"
              using i guard cur Some prev Inr Inl p
              by (simp add: handleRegenWithPrompt_def Let_def)
            ultimately show ?thesis using assms by (simp add: history_inv_def)
          next
            case try_ok: (Inr s2)
            from regen_try_Inr [of env ?s0 _ selRect sourceImage s2] try_ok
            obtain newStep where
              "historyIndex s2 = historyIndex s"
              "history s2 = take (nat (historyIndex s)) (history s) @ [newStep]"
              using i by (auto simp add: slice0_take)
            moreover have "handleRegenWithPrompt env s = s2"
              using i guard cur Some prev Inr try_ok
              by (simp add: handleRegenWithPrompt_def Let_def)
            ultimately show ?thesis using i by (simp add: history_inv_def)
          qed
        qed
      qed
    qed
  qed
qed

text \<open>
  C2. The invariant reads: the pointer is \<open>-1\<close> on the empty history and satisfies
  \<open>0 \<le> currentIndex < length\<close> otherwise. Loading, reset, selection, the enhancement
  job, the commit of a normal enhancement, undo, redo and regeneration preserve it (the
  lemmas above). The commit of a full-image enhancement does not: on a freshly loaded
  image (history \<open>[root]\<close>, pointer 0) a successful full-image enhancement leaves two
  steps and the pointer at 2, because line 579 stores the length of the history that
  already holds the new step.
\<close>

theorem fullImage_breaks_invariant:
  "history_inv (session [rootStep] 0 LOADED)
   \<and> length (history (runFullImageEnhancement okEnv (session [rootStep] 0 LOADED) 50 50 0)) = 2
   \<and> historyIndex (runFullImageEnhancement okEnv (session [rootStep] 0 LOADED) 50 50 0) = 2
   \<and> \<not> history_inv (runFullImageEnhancement okEnv (session [rootStep] 0 LOADED) 50 50 0)"
  by (simp add: session_def runFullImageEnhancement_def runFullImageEnhancement_try_def
        history_inv_def rootStep_def okEnv_fields okEnv_serviceEnhance Let_def slice0_def)

section \<open>History: undo and redo\<close>

text \<open>
  C9. Undo with the pointer at 0 and redo with the pointer at the tail are rejected as
  no-ops on the whole editor state (history, pointer and displayed image), and so are
  undo and redo in the enhancing, analysing, converting and GIF-generating states. The
  handlers \<^const>\<open>handleUndo\<close> and \<^const>\<open>handleRedo\<close> reject at the two ends of the
  history, in the \<^const>\<open>ENHANCING\<close> state and while a GIF is generated (the first two
  conjuncts); they are bound only to the buttons of the panel that is rendered in the
  \<^const>\<open>LOADED\<close> state, so that undo and redo as the editor offers them,
  \<^const>\<open>clickUndo\<close> and \<^const>\<open>clickRedo\<close>, are no-ops in all four busy states and at
  the two ends (the last two conjuncts).
\<close>

theorem undo_redo_rejected:
  "(historyIndex s \<le> 0 \<or> appState s = ENHANCING \<or> isGeneratingGif s
      \<longrightarrow> handleUndo env s = s)
   \<and> (historyIndex s \<ge> int (length (history s)) - 1 \<or> appState s = ENHANCING \<or> isGeneratingGif s
      \<longrightarrow> handleRedo env s = s)
   \<and> (historyIndex s \<le> 0 \<or> appState s = ENHANCING \<or> appState s = ANALYZING
        \<or> appState s = CONVERTING \<or> isGeneratingGif s
      \<longrightarrow> clickUndo env s = s)
   \<and> (historyIndex s \<ge> int (length (history s)) - 1 \<or> appState s = ENHANCING
        \<or> appState s = ANALYZING \<or> appState s = CONVERTING \<or> isGeneratingGif s
      \<longrightarrow> clickRedo env s = s)"
  by (auto simp add: handleUndo_def handleRedo_def clickUndo_def clickRedo_def
        controlsRendered_def undoDisabled_def redoDisabled_def)

theorem undo_redo_rejected_witness:
  "handleUndo okEnv (session [rootStep, stepA] 0 LOADED) = session [rootStep, stepA] 0 LOADED
   \<and> handleRedo okEnv (session [rootStep, stepA] 1 LOADED) = session [rootStep, stepA] 1 LOADED
   \<and> handleUndo okEnv (session [rootStep, stepA] 1 ENHANCING) = session [rootStep, stepA] 1 ENHANCING
   \<and> clickUndo okEnv (session [rootStep, stepA] 1 ANALYZING) = session [rootStep, stepA] 1 ANALYZING
   \<and> clickRedo okEnv (session [rootStep, stepA] 0 CONVERTING) = session [rootStep, stepA] 0 CONVERTING"
  using undo_redo_rejected [of "session [rootStep, stepA] 0 LOADED" okEnv]
        undo_redo_rejected [of "session [rootStep, stepA] 1 LOADED" okEnv]
        undo_redo_rejected [of "session [rootStep, stepA] 1 ENHANCING" okEnv]
        undo_redo_rejected [of "session [rootStep, stepA] 1 ANALYZING" okEnv]
        undo_redo_rejected [of "session [rootStep, stepA] 0 CONVERTING" okEnv]
  by (simp add: session_def)

section \<open>Orchestrator: a failed attempt\<close>

text \<open>
  Measured from the state before the selection, a failed attempt does change the
  history: on \<open>[root, A, B]\<close> with the pointer at 0, a selection whose enhancement call
  is rejected ends in the \<^const>\<open>LOADED\<close> state with the history \<open>[root]\<close>. The redo
  steps were cut when the selection was confirmed (lines 241-247) and the \<^verbatim>\<open>catch\<close>
  does not bring them back.
\<close>

theorem failed_attempt_loses_redo_steps_counterexample:
  "history (session [rootStep, stepA, stepB] 0 LOADED) = [rootStep, stepA, stepB]
   \<and> history (runEnhancementJob failEnv
        (handleSelection failEnv (session [rootStep, stepA, stepB] 0 LOADED)
           \<lparr>rect_x = 10, rect_y = 10, rect_w = 100, rect_h = 100\<rparr>
           \<lparr>rect_x = 30, rect_y = 40, rect_w = 200, rect_h = 200\<rparr>
           ''data:image/png;base64,CANVAS'')) = [rootStep]
   \<and> appState (runEnhancementJob failEnv
        (handleSelection failEnv (session [rootStep, stepA, stepB] 0 LOADED)
           \<lparr>rect_x = 10, rect_y = 10, rect_w = 100, rect_h = 100\<rparr>
           \<lparr>rect_x = 30, rect_y = 40, rect_w = 200, rect_h = 200\<rparr>
           ''data:image/png;base64,CANVAS'')) = LOADED
   \<and> errorMessage (runEnhancementJob failEnv
        (handleSelection failEnv (session [rootStep, stepA, stepB] 0 LOADED)
           \<lparr>rect_x = 10, rect_y = 10, rect_w = 100, rect_h = 100\<rparr>
           \<lparr>rect_x = 30, rect_y = 40, rect_w = 200, rect_h = 200\<rparr>
           ''data:image/png;base64,CANVAS'')) = Some ''backend unavailable''"
  by (simp add: session_def handleSelection_def runEnhancementJob_def runEnhancementJob_try_def
        descriptionsUpTo_def List.map_filter_simps failEnv_message
        rootStep_def stepA_def stepB_def failEnv_fields failEnv_serviceEnhance Let_def slice0_def)

lemma redoSelection_fields:
  "enhancementJob (handleSelection failEnv (session [rootStep, stepA, stepB] 1 LOADED)
           \<lparr>rect_x = 10, rect_y = 10, rect_w = 100, rect_h = 100\<rparr>
           \<lparr>rect_x = 30, rect_y = 40, rect_w = 200, rect_h = 200\<rparr>
           ''data:image/png;base64,CANVAS'')
     = Some \<lparr>job_originalRect = \<lparr>rect_x = 10, rect_y = 10, rect_w = 100, rect_h = 100\<rparr>,
             job_canvasWithSelectionDataUrl = ''data:image/png;base64,CANVAS'',
             job_pixelatedSrc = ''data:image/png;base64,CROP'',
             job_screenRect = \<lparr>rect_x = 30, rect_y = 40, rect_w = 200, rect_h = 200\<rparr>\<rparr>"
  "image (handleSelection failEnv (session [rootStep, stepA, stepB] 1 LOADED)
           \<lparr>rect_x = 10, rect_y = 10, rect_w = 100, rect_h = 100\<rparr>
           \<lparr>rect_x = 30, rect_y = 40, rect_w = 200, rect_h = 200\<rparr>
           ''data:image/png;base64,CANVAS'')
     = Some \<lparr>img_src = ''blob:current'', naturalWidth = 500, naturalHeight = 500\<rparr>"
  by (simp_all add: handleSelection_def session_def failEnv_fields Let_def)

text \<open>
  C8 (amended). For an enhancement job in flight (a job and an image are present),
  whatever the collaborators answer, the job is cleared when \<^const>\<open>runEnhancementJob\<close>
  settles, and the history and its pointer are as they were when the job was created:
  no step is committed. Measured from the state before the selection that created the
  job, the history is its steps up to the pointer: the redo steps discarded at the
  selection are not restored. When the attempt throws, the editor is back in the
  \<^const>\<open>LOADED\<close> state with the same image, the message of the thrown value is shown,
  and no enhanced image is stored. A rejected description call, a rejected enhancement
  call and a result that does not decode each make the attempt throw.
\<close>

theorem runEnhancementJob_failure_keeps_cut_history:
  assumes "enhancementJob s = Some job" and "image s = Some img"
  shows "enhancementJob (runEnhancementJob env s) = None
       \<and> history (runEnhancementJob env s) = history s
       \<and> historyIndex (runEnhancementJob env s) = historyIndex s
       \<and> (\<forall>env0 s0 selRect screenRect url.
             s = handleSelection env0 s0 selRect screenRect url
           \<and> image s0 \<noteq> None \<and> - 1 \<le> historyIndex s0 \<longrightarrow>
             history (runEnhancementJob env s) = take (nat (historyIndex s0 + 1)) (history s0)
           \<and> historyIndex (runEnhancementJob env s) = historyIndex s0)
       \<and> (\<forall>e s1. runEnhancementJob_try env s job img = Inl (e, s1) \<longrightarrow>
             appState (runEnhancementJob env s) = LOADED
           \<and> errorMessage (runEnhancementJob env s) = Some (getApiErrorMessage env e)
           \<and> finalEnhancementRect (runEnhancementJob env s) = None
           \<and> image (runEnhancementJob env s) = image s
           \<and> finalImageSrc (runEnhancementJob env s) = finalImageSrc s
           \<and> enhancedImageSrc (runEnhancementJob env s) = enhancedImageSrc s)
       \<and> (\<forall>e. serviceDescribeImage env (job_canvasWithSelectionDataUrl job)
                 (descriptionsUpTo (history s) (historyIndex s + 1)) False = Inl e \<longrightarrow>
             (\<exists>s1. runEnhancementJob_try env s job img = Inl (e, s1)))
       \<and> (\<forall>desc cropped e.
             serviceDescribeImage env (job_canvasWithSelectionDataUrl job)
                 (descriptionsUpTo (history s) (historyIndex s + 1)) False = Inr desc
           \<and> cropImage env img
                 (padRect padding (job_originalRect job) (real (naturalWidth img)) (real (naturalHeight img)))
                 targetWidth
                 (targetHeight (padRect padding (job_originalRect job)
                                  (real (naturalWidth img)) (real (naturalHeight img))))
                 False = Inr cropped
           \<and> snd (serviceEnhance env cropped
                    (map prompt (descriptionsUpTo (history s) (historyIndex s + 1)) @ [prompt desc])
                    (seekNanoBanana s) (sharpness s) (denoise s) (imagination s)) = Inl e \<longrightarrow>
             (\<exists>s1. runEnhancementJob_try env s job img = Inl (e, s1)))
       \<and> (\<forall>desc cropped enhancedPaddedSrc foundTheBanana e.
             serviceDescribeImage env (job_canvasWithSelectionDataUrl job)
                 (descriptionsUpTo (history s) (historyIndex s + 1)) False = Inr desc
           \<and> cropImage env img
                 (padRect padding (job_originalRect job) (real (naturalWidth img)) (real (naturalHeight img)))
                 targetWidth
                 (targetHeight (padRect padding (job_originalRect job)
                                  (real (naturalWidth img)) (real (naturalHeight img))))
                 False = Inr cropped
           \<and> snd (serviceEnhance env cropped
                    (map prompt (descriptionsUpTo (history s) (historyIndex s + 1)) @ [prompt desc])
                    (seekNanoBanana s) (sharpness s) (denoise s) (imagination s))
               = Inr (enhancedPaddedSrc, foundTheBanana)
           \<and> loadImage env enhancedPaddedSrc = Inl e \<longrightarrow>
             (\<exists>s1. runEnhancementJob_try env s job img = Inl (e, s1)))"
proof -
  have job: "enhancementJob (runEnhancementJob env s) = None"
    using assms by (simp add: runEnhancementJob_def Let_def split: sum.splits prod.splits)
  have frame: "history (runEnhancementJob env s) = history s
       \<and> historyIndex (runEnhancementJob env s) = historyIndex s"
  proof (cases "runEnhancementJob_try env s job img")
    case (Inl p)
    obtain e s1 where p: "p = (e, s1)" by (cases p)
    from try_Inl [of env s job img e s1] Inl p
    show ?thesis using assms by (simp add: runEnhancementJob_def Let_def)
  next
    case (Inr s3)
    from try_Inr [OF Inr] Inr show ?thesis
      using assms by (simp add: runEnhancementJob_def Let_def)
  qed
  have caught: "appState (runEnhancementJob env s) = LOADED
           \<and> errorMessage (runEnhancementJob env s) = Some (getApiErrorMessage env e)
           \<and> finalEnhancementRect (runEnhancementJob env s) = None
           \<and> image (runEnhancementJob env s) = image s
           \<and> finalImageSrc (runEnhancementJob env s) = finalImageSrc s
           \<and> enhancedImageSrc (runEnhancementJob env s) = enhancedImageSrc s"
    if "runEnhancementJob_try env s job img = Inl (e, s1)" for e s1
    using that try_Inl [OF that] assms by (simp add: runEnhancementJob_def Let_def)
  have describe: "\<exists>s1. runEnhancementJob_try env s job img = Inl (e, s1)"
    if "serviceDescribeImage env (job_canvasWithSelectionDataUrl job)
                 (descriptionsUpTo (history s) (historyIndex s + 1)) False = Inl e" for e
    using that by (simp add: runEnhancementJob_try_def Let_def)
  have enhance: "\<exists>s1. runEnhancementJob_try env s job img = Inl (e, s1)"
    if "serviceDescribeImage env (job_canvasWithSelectionDataUrl job)
                 (descriptionsUpTo (history s) (historyIndex s + 1)) False = Inr desc"
       "cropImage env img
                 (padRect padding (job_originalRect job) (real (naturalWidth img)) (real (naturalHeight img)))
                 targetWidth
                 (targetHeight (padRect padding (job_originalRect job)
                                  (real (naturalWidth img)) (real (naturalHeight img))))
                 False = Inr cropped"
       "snd (serviceEnhance env cropped
                    (map prompt (descriptionsUpTo (history s) (historyIndex s + 1)) @ [prompt desc])
                    (seekNanoBanana s) (sharpness s) (denoise s) (imagination s)) = Inl e"
    for desc cropped e
    using that by (simp add: runEnhancementJob_try_def Let_def)
  have decode: "\<exists>s1. runEnhancementJob_try env s job img = Inl (e, s1)"
    if "serviceDescribeImage env (job_canvasWithSelectionDataUrl job)
                 (descriptionsUpTo (history s) (historyIndex s + 1)) False = Inr desc"
       "cropImage env img
                 (padRect padding (job_originalRect job) (real (naturalWidth img)) (real (naturalHeight img)))
                 targetWidth
                 (targetHeight (padRect padding (job_originalRect job)
                                  (real (naturalWidth img)) (real (naturalHeight img))))
                 False = Inr cropped"
       "snd (serviceEnhance env cropped
                    (map prompt (descriptionsUpTo (history s) (historyIndex s + 1)) @ [prompt desc])
                    (seekNanoBanana s) (sharpness s) (denoise s) (imagination s))
               = Inr (enhancedPaddedSrc, foundTheBanana)"
       "loadImage env enhancedPaddedSrc = Inl e"
    for desc cropped enhancedPaddedSrc foundTheBanana e
    using that by (simp add: runEnhancementJob_try_def Let_def)
  have cut: "history (runEnhancementJob env s) = take (nat (historyIndex s0 + 1)) (history s0)
           \<and> historyIndex (runEnhancementJob env s) = historyIndex s0"
    if "s = handleSelection env0 s0 selRect screenRect url" "image s0 \<noteq> None"
       "- 1 \<le> historyIndex s0"
    for env0 s0 selRect screenRect url
    using frame that history_handleSelection [of s0 env0 selRect screenRect url]
      historyIndex_handleSelection [of env0 s0 selRect screenRect url]
    by simp
  from job frame cut caught describe enhance decode show ?thesis by blast
qed

text \<open>
  A selection on \<open>[root, A, B]\<close> with the pointer at 1 whose enhancement call is
  rejected: the job is cleared and the history is \<open>[root, A]\<close> with the pointer at 1.
\<close>

theorem runEnhancementJob_failure_keeps_cut_history_witness:
  "enhancementJob (runEnhancementJob failEnv
        (handleSelection failEnv (session [rootStep, stepA, stepB] 1 LOADED)
           \<lparr>rect_x = 10, rect_y = 10, rect_w = 100, rect_h = 100\<rparr>
           \<lparr>rect_x = 30, rect_y = 40, rect_w = 200, rect_h = 200\<rparr>
           ''data:image/png;base64,CANVAS'')) = None
   \<and> history (runEnhancementJob failEnv
        (handleSelection failEnv (session [rootStep, stepA, stepB] 1 LOADED)
           \<lparr>rect_x = 10, rect_y = 10, rect_w = 100, rect_h = 100\<rparr>
           \<lparr>rect_x = 30, rect_y = 40, rect_w = 200, rect_h = 200\<rparr>
           ''data:image/png;base64,CANVAS'')) = [rootStep, stepA]
   \<and> historyIndex (runEnhancementJob failEnv
        (handleSelection failEnv (session [rootStep, stepA, stepB] 1 LOADED)
           \<lparr>rect_x = 10, rect_y = 10, rect_w = 100, rect_h = 100\<rparr>
           \<lparr>rect_x = 30, rect_y = 40, rect_w = 200, rect_h = 200\<rparr>
           ''data:image/png;base64,CANVAS'')) = 1"
proof -
  note t = runEnhancementJob_failure_keeps_cut_history [OF redoSelection_fields, of failEnv]
  note cut = t [THEN conjunct2, THEN conjunct2, THEN conjunct2, THEN conjunct1, rule_format,
                of failEnv "session [rootStep, stepA, stepB] 1 LOADED"
                   "\<lparr>rect_x = 10, rect_y = 10, rect_w = 100, rect_h = 100\<rparr>"
                   "\<lparr>rect_x = 30, rect_y = 40, rect_w = 200, rect_h = 200\<rparr>"
                   "''data:image/png;base64,CANVAS''"]
  from t [THEN conjunct1] cut show ?thesis
    by (simp add: session_fields)
qed

section \<open>Viewport: zooming keeps the point under the cursor\<close>

text \<open>
  C6. For a transform whose scale lies in the permitted range \<open>[1/4, 20]\<close> and any
  cursor position, the canvas point under the cursor is drawn at the cursor before the
  wheel step and is drawn at the cursor again after it, whichever way the wheel turns
  and also when the new scale is clamped; the new scale stays in the range. The identity
  is exact in real arithmetic.
\<close>

theorem handleWheel_pivot_invariant:
  assumes "1 / 4 \<le> tr_scale t" and "tr_scale t \<le> 20"
  shows "toScreen t (getTransformedMousePos t mouse) = mouse
       \<and> toScreen (handleWheel isEnhancing hasCanvas t mouse deltaY)
            (getTransformedMousePos t mouse) = mouse
       \<and> 1 / 4 \<le> tr_scale (handleWheel isEnhancing hasCanvas t mouse deltaY)
       \<and> tr_scale (handleWheel isEnhancing hasCanvas t mouse deltaY) \<le> 20"
proof -
  from assms have s: "tr_scale t \<noteq> 0" by auto
  have before: "toScreen t (getTransformedMousePos t mouse) = mouse"
    using s by (simp add: toScreen_def getTransformedMousePos_def)
  have after: "toScreen (handleWheel isEnhancing hasCanvas t mouse deltaY)
                 (getTransformedMousePos t mouse) = mouse"
    using s before
    by (cases mouse)
       (simp add: handleWheel_def toScreen_def getTransformedMousePos_def Let_def field_simps)
  have rng: "1 / 4 \<le> tr_scale (handleWheel isEnhancing hasCanvas t mouse deltaY)
       \<and> tr_scale (handleWheel isEnhancing hasCanvas t mouse deltaY) \<le> 20"
    using assms by (auto simp add: handleWheel_def Let_def clamp_def max_def)
  from before after rng show ?thesis by simp
qed

text \<open>A zoom-in at scale 19 is clamped to 20 and still keeps the cursor's point in place.\<close>

theorem handleWheel_pivot_invariant_witness:
  "toScreen (handleWheel False True \<lparr>tr_x = 3, tr_y = 4, tr_scale = 19\<rparr> (100, 50) (- 1))
     (getTransformedMousePos \<lparr>tr_x = 3, tr_y = 4, tr_scale = 19\<rparr> (100, 50)) = (100, 50)
   \<and> tr_scale (handleWheel False True \<lparr>tr_x = 3, tr_y = 4, tr_scale = 19\<rparr> (100, 50) (- 1)) = 20"
  using handleWheel_pivot_invariant
          [of "\<lparr>tr_x = 3, tr_y = 4, tr_scale = 19\<rparr>" "(100, 50)" False True "- 1"]
  by (simp add: handleWheel_def Let_def clamp_def zoomFactor_def)

section \<open>Region padding\<close>

text \<open>
  C7. For a selection with non-negative width and height that lies within the image
  bounds \<open>[0, W] \<times> [0, H]\<close>, and a padding factor \<open>p \<ge> 0\<close> (the source uses
  \<open>p = 1/2\<close>), the padded rectangle lies within the image bounds and has non-negative
  width and height; when the selection has room for the full padding on all four sides,
  the padded area is \<open>(1 + 2p)\<^sup>2\<close> times the selection's area.
\<close>

theorem padRect_within_image:
  assumes "0 \<le> p" and "0 \<le> rect_w r" and "0 \<le> rect_h r"
      and "rect_within r (imageBounds W H)"
  shows "rect_within (padRect p r W H) (imageBounds W H)
       \<and> 0 \<le> rect_w (padRect p r W H) \<and> 0 \<le> rect_h (padRect p r W H)
       \<and> (0 \<le> rect_x r - rect_w r * p \<and> rect_x r + rect_w r + rect_w r * p \<le> W
          \<and> 0 \<le> rect_y r - rect_h r * p \<and> rect_y r + rect_h r + rect_h r * p \<le> H
          \<longrightarrow> rect_area (padRect p r W H) = (1 + 2 * p)\<^sup>2 * rect_area r)"
proof -
  have wp: "0 \<le> rect_w r * p" and hp: "0 \<le> rect_h r * p"
    using assms by simp_all
  have inside: "rect_within (padRect p r W H) (imageBounds W H)"
    using assms(4) wp hp
    by (simp add: rect_within_def imageBounds_def padRect_def Let_def algebra_simps)
  have w: "0 \<le> rect_w (padRect p r W H)"
    using assms(2,4) wp
    by (simp add: rect_within_def imageBounds_def padRect_def Let_def algebra_simps max_def min_def)
  have h: "0 \<le> rect_h (padRect p r W H)"
    using assms(3,4) hp
    by (simp add: rect_within_def imageBounds_def padRect_def Let_def algebra_simps max_def min_def)
  have area: "rect_area (padRect p r W H) = (1 + 2 * p)\<^sup>2 * rect_area r"
    if "0 \<le> rect_x r - rect_w r * p" "rect_x r + rect_w r + rect_w r * p \<le> W"
       "0 \<le> rect_y r - rect_h r * p" "rect_y r + rect_h r + rect_h r * p \<le> H"
  proof -
    have "rect_w (padRect p r W H) = rect_w r * (1 + 2 * p)"
      using that(1,2) by (simp add: padRect_def Let_def algebra_simps max_def min_def)
    moreover have "rect_h (padRect p r W H) = rect_h r * (1 + 2 * p)"
      using that(3,4) by (simp add: padRect_def Let_def algebra_simps max_def min_def)
    ultimately show ?thesis
      by (simp add: rect_area_def power2_eq_square algebra_simps)
  qed
  from inside w h area show ?thesis by blast
qed

text \<open>
  An interior 40 by 20 selection with the source's padding: the padded rectangle is
  inside the image and has four times the area.
\<close>

theorem padRect_within_image_witness:
  "rect_within (padRect padding \<lparr>rect_x = 100, rect_y = 200, rect_w = 40, rect_h = 20\<rparr> 500 400)
     (imageBounds 500 400)
   \<and> rect_area (padRect padding \<lparr>rect_x = 100, rect_y = 200, rect_w = 40, rect_h = 20\<rparr> 500 400)
       = 3200"
  using padRect_within_image
          [of padding "\<lparr>rect_x = 100, rect_y = 200, rect_w = 40, rect_h = 20\<rparr>" 500 400]
  by (simp add: padding_def rect_within_def imageBounds_def rect_area_def power2_eq_square)

text \<open>
  The scenario of C3 as the spec words it does not hold: the padded rectangle of the
  selection \<open>{10, 10, 100, 100}\<close> on a 500 by 500 image is not \<open>{0, 0, 200, 200}\<close>, and
  the crop rectangle in a 1024 by 1024 result is not \<open>{51.2, 51.2, 512, 512}\<close>.
\<close>

theorem scenario_padded_rect_counterexample:
  "padRect padding \<lparr>rect_x = 10, rect_y = 10, rect_w = 100, rect_h = 100\<rparr> 500 500
     \<noteq> \<lparr>rect_x = 0, rect_y = 0, rect_w = 200, rect_h = 200\<rparr>
   \<and> finalCropRect \<lparr>rect_x = 10, rect_y = 10, rect_w = 100, rect_h = 100\<rparr>
        (padRect padding \<lparr>rect_x = 10, rect_y = 10, rect_w = 100, rect_h = 100\<rparr> 500 500) 1024 1024
     \<noteq> \<lparr>rect_x = 1024 * (10 - 0) / 200, rect_y = 1024 * (10 - 0) / 200,
         rect_w = 1024 * 100 / 200, rect_h = 1024 * 100 / 200\<rparr>"
  by (simp add: padRect_def padding_def finalCropRect_def Let_def)

text \<open>
  C3 (amended). For the selection \<open>{10, 10, 100, 100}\<close> on a 500 by 500 image with
  padding factor \<open>1/2\<close> the padded rectangle is \<open>{0, 0, 160, 160}\<close>: the low edge is
  clamped from \<open>-40\<close> to \<open>0\<close>, the high edge stays at \<open>-40 + 200 = 160\<close>. For an
  enhanced result of 1024 by 1024 pixels the crop rectangle is \<open>{64, 64, 640, 640}\<close>,
  that is \<open>1024 * 10 / 160\<close> and \<open>1024 * 100 / 160\<close>.
\<close>

theorem scenario_padded_rect:
  "padRect padding \<lparr>rect_x = 10, rect_y = 10, rect_w = 100, rect_h = 100\<rparr> 500 500
     = \<lparr>rect_x = 0, rect_y = 0, rect_w = 160, rect_h = 160\<rparr>
   \<and> finalCropRect \<lparr>rect_x = 10, rect_y = 10, rect_w = 100, rect_h = 100\<rparr>
        (padRect padding \<lparr>rect_x = 10, rect_y = 10, rect_w = 100, rect_h = 100\<rparr> 500 500) 1024 1024
     = \<lparr>rect_x = 64, rect_y = 64, rect_w = 640, rect_h = 640\<rparr>"
  by (simp add: padRect_def padding_def finalCropRect_def Let_def)

section \<open>Inverse mapping\<close>

text \<open>
  The requested height is rounded and is 0 for a very flat padded rectangle (here 8192
  by 2). No decoded image has that height, which is why the theorem below speaks of a
  decoded result with at least one row.
\<close>

lemma targetHeight_rounds_to_zero:
  "padRect padding \<lparr>rect_x = 0, rect_y = 1, rect_w = 8192, rect_h = 1\<rparr> 8192 3
     = \<lparr>rect_x = 0, rect_y = 1 / 2, rect_w = 8192, rect_h = 2\<rparr>
   \<and> targetHeight (padRect padding \<lparr>rect_x = 0, rect_y = 1, rect_w = 8192, rect_h = 1\<rparr> 8192 3) = 0"
  by (simp add: padRect_def padding_def targetHeight_def targetWidth_def js_round_def Let_def)

text \<open>
  C4. For a selection with positive width and height inside the image and a padded
  rectangle that contains it, when the backend's decoded result has exactly the
  requested dimensions (\<^const>\<open>targetWidth\<close> by \<^const>\<open>targetHeight\<close> of the padded
  rectangle; a decoded image has at least one row), the crop rectangle computed in the
  result is the image of the selection under the crop-and-resize of the padded
  rectangle, and mapping it back through that resize gives the selection again.
\<close>

theorem finalCropRect_inverts_resize:
  assumes "0 < rect_w r" and "0 < rect_h r"
      and "rect_within r (imageBounds W H)"
      and "rect_within r paddedRect"
      and "real (naturalWidth result) = targetWidth"
      and "real (naturalHeight result) = targetHeight paddedRect"
      and "0 < naturalHeight result"
  shows "finalCropRect r paddedRect (real (naturalWidth result)) (real (naturalHeight result))
           = resizeRect paddedRect targetWidth (targetHeight paddedRect) r
       \<and> unresizeRect paddedRect targetWidth (targetHeight paddedRect)
           (finalCropRect r paddedRect (real (naturalWidth result)) (real (naturalHeight result)))
           = r"
proof -
  have pw: "0 < rect_w paddedRect" and ph: "0 < rect_h paddedRect"
    using assms(1,2,4) by (auto simp: rect_within_def)
  have tw: "targetWidth \<noteq> 0" by (simp add: targetWidth_def)
  have th: "targetHeight paddedRect \<noteq> 0"
    using assms(6,7) by auto
  have fwd: "finalCropRect r paddedRect targetWidth (targetHeight paddedRect)
           = resizeRect paddedRect targetWidth (targetHeight paddedRect) r"
    by (simp add: finalCropRect_def resizeRect_def)
  have bwd: "unresizeRect paddedRect targetWidth (targetHeight paddedRect)
           (finalCropRect r paddedRect targetWidth (targetHeight paddedRect)) = r"
    using pw ph tw th by (simp add: finalCropRect_def unresizeRect_def)
  from fwd bwd assms(5,6) show ?thesis by simp
qed

text \<open>
  The selection \<open>{10, 10, 100, 100}\<close> in its padded rectangle \<open>{0, 0, 160, 160}\<close> with
  a 1024 by 1024 result.
\<close>

theorem finalCropRect_inverts_resize_witness:
  "finalCropRect \<lparr>rect_x = 10, rect_y = 10, rect_w = 100, rect_h = 100\<rparr>
       \<lparr>rect_x = 0, rect_y = 0, rect_w = 160, rect_h = 160\<rparr>
       (real (naturalWidth \<lparr>img_src = ''data:image/png;base64,AAAA'', naturalWidth = 1024, naturalHeight = 1024\<rparr>))
       (real (naturalHeight \<lparr>img_src = ''data:image/png;base64,AAAA'', naturalWidth = 1024, naturalHeight = 1024\<rparr>))
     = resizeRect \<lparr>rect_x = 0, rect_y = 0, rect_w = 160, rect_h = 160\<rparr> targetWidth
         (targetHeight \<lparr>rect_x = 0, rect_y = 0, rect_w = 160, rect_h = 160\<rparr>)
         \<lparr>rect_x = 10, rect_y = 10, rect_w = 100, rect_h = 100\<rparr>
   \<and> unresizeRect \<lparr>rect_x = 0, rect_y = 0, rect_w = 160, rect_h = 160\<rparr> targetWidth
         (targetHeight \<lparr>rect_x = 0, rect_y = 0, rect_w = 160, rect_h = 160\<rparr>)
         (finalCropRect \<lparr>rect_x = 10, rect_y = 10, rect_w = 100, rect_h = 100\<rparr>
            \<lparr>rect_x = 0, rect_y = 0, rect_w = 160, rect_h = 160\<rparr>
            (real (naturalWidth \<lparr>img_src = ''data:image/png;base64,AAAA'', naturalWidth = 1024, naturalHeight = 1024\<rparr>))
            (real (naturalHeight \<lparr>img_src = ''data:image/png;base64,AAAA'', naturalWidth = 1024, naturalHeight = 1024\<rparr>)))
     = \<lparr>rect_x = 10, rect_y = 10, rect_w = 100, rect_h = 100\<rparr>"
  by (rule finalCropRect_inverts_resize [where W = 500 and H = 500])
     (simp_all add: rect_within_def imageBounds_def targetWidth_def targetHeight_def js_round_def)

section \<open>Enhancement service: the prompt\<close>

text \<open>
  C10. Two calls of the enhancement service with non-empty prompt histories that end in
  the same prompt, and with the same dials and easter-egg flag, send the same prompt
  text to the backend, whatever the image and the rest of the histories (and with all
  arguments equal the whole call is the same); the one request's text is built from the
  last prompt only. A call with an empty history sends no request and is rejected with
  the error \<open>Enhancement history is empty.\<close>
\<close>

theorem serviceEnhance_prompt_from_last:
  assumes "h1 \<noteq> []" and "h2 \<noteq> []" and "last h1 = last h2"
  shows "serviceEnhance env img h1 seek sh dn im = serviceEnhance env img h2 seek sh dn im
       \<and> map req_text (fst (serviceEnhance env1 img1 h1 seek sh dn im))
           = map req_text (fst (serviceEnhance env2 img2 h2 seek sh dn im))
       \<and> map req_text (fst (serviceEnhance env img h1 seek sh dn im))
           = [generationPrompt (last h1) seek sh dn im]
       \<and> serviceEnhance env img [] seek sh dn im
           = ([], Inl (Error ''Enhancement history is empty.''))"
  using assms by (simp add: serviceEnhance_def Let_def)

text \<open>A two-prompt and a one-prompt history with the same last prompt.\<close>

theorem serviceEnhance_prompt_from_last_witness:
  "serviceEnhance okEnv ''data:image/png;base64,CROP'' [''a bay window'', ''a brass latch''] False 50 50 0
     = serviceEnhance okEnv ''data:image/png;base64,CROP'' [''a brass latch''] False 50 50 0
   \<and> map req_text (fst (serviceEnhance okEnv ''data:image/png;base64,CROP''
                          [''a bay window'', ''a brass latch''] False 50 50 0))
       = map req_text (fst (serviceEnhance failEnv ''data:image/png;base64,FULL''
                          [''a brass latch''] False 50 50 0))
   \<and> map req_text (fst (serviceEnhance okEnv ''data:image/png;base64,CROP''
                          [''a bay window'', ''a brass latch''] False 50 50 0))
       = [generationPrompt (last [''a bay window'', ''a brass latch'']) False 50 50 0]
   \<and> serviceEnhance okEnv ''data:image/png;base64,CROP'' [] False 50 50 0
       = ([], Inl (Error ''Enhancement history is empty.''))"
  by (rule serviceEnhance_prompt_from_last) simp_all

end
